theory Spec2Isabelle
  imports Main
begin

section \<open>Exceptions, the fabric environment and the world\<close>

text \<open>
  The modules \<^verbatim>\<open>igvm/utils/preparevm.py\<close> and \<^verbatim>\<open>managevm/utils/image_packet.py\<close>
  are sequences of remote operations. Each Python function becomes a function from the
  world to a result and the new world; a raised exception is the \<open>Inl\<close> result, and
  the world that comes with it holds the effects that happened before the raise.
\<close>

datatype exn =
    IGVMError string
  | RemoteCommandError string string
  | SocketError string
  | URLError string
  | KeyError string
  | IndexError
  | AssertionError
  | OtherError string

text \<open>The message an exception is printed with (\<^verbatim>\<open>IGVMError(e)\<close> wraps it).\<close>

fun exn_message :: "exn \<Rightarrow> string" where
  "exn_message (IGVMError m) = m"
| "exn_message (RemoteCommandError h c) = c"
| "exn_message (SocketError m) = m"
| "exn_message (URLError m) = m"
| "exn_message (KeyError k) = k"
| "exn_message IndexError = ''list index out of range''"
| "exn_message AssertionError = []"
| "exn_message (OtherError m) = m"


fun is_network_error :: "exn \<Rightarrow> bool" where
  "is_network_error (SocketError m) = True"
| "is_network_error (URLError m) = True"
| "is_network_error e = False"

fun is_URLError :: "exn \<Rightarrow> bool" where
  "is_URLError (URLError m) = True"
| "is_URLError e = False"

text \<open>The values a template context or a request can carry.\<close>

datatype tvalue = TStr string | TStrs "string list" | TDict "(string \<times> string) list"

text \<open>
  A compensating action as \<^verbatim>\<open>tx.on_rollback(description, hypervisor.run, command)\<close>
  registers it: the description, the host whose \<^verbatim>\<open>run\<close> is bound, the command.
\<close>

record compensation =
  description :: string
  on_host :: string
  command :: string

text \<open>
  What the program does to the outside, in the order it does it. \<open>Run\<close> carries the
  host, the working directory, the command and whether it succeeded.
\<close>

datatype event =
    Run string string string bool
  | Get string string string
  | Put string string string string
  | UploadTemplate string string string string "(string \<times> tvalue) list"
  | CreateAuthorizedKeys string string
  | FilesExists string string string
  | UrlOpen string "(string \<times> string) list"
  | LogInfo string
  | OnRollback nat compensation

text \<open>A file of the guest root: its lines and its executable bit.\<close>

record guest_file =
  content :: "string list"
  executable :: bool

text \<open>
  What \<^verbatim>\<open>urllib2.urlopen\<close> does: it returns a response with a status code and a body,
  or it raises. \<^verbatim>\<open>socket.error\<close> and \<^verbatim>\<open>urllib2.URLError\<close> are the two exceptions the
  sources name in their handlers; \<open>RaisesOther\<close> is any exception that is neither
  (\<^verbatim>\<open>httplib.BadStatusLine\<close>, \<^verbatim>\<open>ssl.CertificateError\<close>, ...).
\<close>

datatype url_result =
    Response nat string
  | RaisesSocketError string
  | RaisesURLError string
  | RaisesOther string

text \<open>
  Modelled from the spec: the Remote Executor and the other collaborators the sources
  import but do not define (\<^verbatim>\<open>fabric.api.run\<close>, \<^verbatim>\<open>get\<close>, \<^verbatim>\<open>hypervisor.run\<close>,
  \<^verbatim>\<open>upload_template\<close>, \<^verbatim>\<open>create_authorized_keys\<close>, \<^verbatim>\<open>files.exists\<close>,
  \<^verbatim>\<open>urllib2.urlopen\<close>). "Runs commands on a host, returns output/status, with a scoped
  working context; per-call fail-fast vs. warn-only policy." What a remote operation
  answers is a parameter: it may depend on the moment (the number of operations done
  before, which is the length of the trace), on the host, on the working directory and
  on the operation, so that any sequence of answers is some remote. \<open>cmd_fx\<close> is what a
  command the model gives no meaning to does to the files.
\<close>

record remote =
  cmd_ok :: "nat \<Rightarrow> string \<Rightarrow> string \<Rightarrow> string \<Rightarrow> bool"
  cmd_out :: "nat \<Rightarrow> string \<Rightarrow> string \<Rightarrow> string \<Rightarrow> string"
  cmd_fx :: "nat \<Rightarrow> string \<Rightarrow> string \<Rightarrow> string
               \<Rightarrow> (string \<times> string \<rightharpoonup> guest_file) \<Rightarrow> (string \<times> string \<rightharpoonup> guest_file)"
  get_result :: "nat \<Rightarrow> string \<Rightarrow> string \<Rightarrow> string \<Rightarrow> string option"
  put_ok :: "nat \<Rightarrow> string \<Rightarrow> string \<Rightarrow> string \<Rightarrow> bool"
  upload_ok :: "nat \<Rightarrow> string \<Rightarrow> string \<Rightarrow> string \<Rightarrow> bool"
  authorized_keys_ok :: "nat \<Rightarrow> string \<Rightarrow> string \<Rightarrow> bool"
  exists_result :: "nat \<Rightarrow> string \<Rightarrow> string \<Rightarrow> string \<Rightarrow> bool"
  urlopen_result :: "nat \<Rightarrow> string \<Rightarrow> (string \<times> string) list \<Rightarrow> url_result"

text \<open>
  The module \<^verbatim>\<open>igvm.settings\<close>, of which \<^verbatim>\<open>preparevm.py\<close> imports two constants. Their
  values are not among the sources; they are global state, as \<^verbatim>\<open>os.environ\<close> is.
\<close>

record igvm_settings =
  DEFAULT_DNS_SERVERS :: "string list"
  DEFAULT_SWAP_SIZE :: nat

text \<open>
  Fabric's global environment (\<^verbatim>\<open>env.host_string\<close>, \<^verbatim>\<open>env.cwd\<close>),
  \<^verbatim>\<open>os.environ\<close>, the module \<^verbatim>\<open>igvm.settings\<close>, the trace, the action lists of the
  transactions (by object identity), the inventory record \<^verbatim>\<open>vm.server_obj\<close> of the VM
  at hand (a dict that \<^verbatim>\<open>prepare_vm\<close> writes to), and the files on the hosts (by host
  and absolute path).
\<close>

record world =
  host_string :: string
  cwd :: string
  environ :: "string \<rightharpoonup> string"
  settings :: igvm_settings
  trace :: "event list"
  actions :: "nat \<Rightarrow> compensation list"
  server_obj :: "string \<rightharpoonup> string"
  fs :: "string \<times> string \<rightharpoonup> guest_file"

type_synonym 'a io = "world \<Rightarrow> (exn + 'a) \<times> world"

definition io_return :: "'a \<Rightarrow> 'a io" where
  "io_return x w = (Inr x, w)"

definition io_raise :: "exn \<Rightarrow> 'a io" where
  "io_raise e w = (Inl e, w)"

definition io_bind :: "'a io \<Rightarrow> ('a \<Rightarrow> 'b io) \<Rightarrow> 'b io" where
  "io_bind m f w = (case m w of (Inl e, w') \<Rightarrow> (Inl e, w') | (Inr x, w') \<Rightarrow> f x w')"

definition io_seq :: "'a io \<Rightarrow> 'b io \<Rightarrow> 'b io" where
  "io_seq m n = io_bind m (\<lambda>x. n)"

text \<open>\<^verbatim>\<open>try: m except <handles> as e: handler(e)\<close>; any other exception passes.\<close>

definition io_try :: "'a io \<Rightarrow> (exn \<Rightarrow> bool) \<Rightarrow> (exn \<Rightarrow> 'a io) \<Rightarrow> 'a io" where
  "io_try m handles handler w =
     (case m w of
        (Inl e, w') \<Rightarrow> if handles e then handler e w' else (Inl e, w')
      | (Inr x, w') \<Rightarrow> (Inr x, w'))"

definition emit :: "event \<Rightarrow> unit io" where
  "emit ev w = (Inr (), w\<lparr>trace := trace w @ [ev]\<rparr>)"

definition log_info :: "string \<Rightarrow> unit io" where
  "log_info msg = emit (LogInfo msg)"

section \<open>Python strings\<close>

definition is_space :: "char \<Rightarrow> bool" where
  "is_space c = (c \<in> set [CHR '' '', CHR 0x09, CHR 0x0A, CHR 0x0B, CHR 0x0C, CHR 0x0D])"

text \<open>\<^verbatim>\<open>s.split()\<close>: the maximal runs of non-whitespace, none of them empty.\<close>

fun py_split_aux :: "string \<Rightarrow> string \<Rightarrow> string list" where
  "py_split_aux cur [] = (if cur = [] then [] else [cur])"
| "py_split_aux cur (c # cs) =
     (if is_space c then (if cur = [] then py_split_aux [] cs else cur # py_split_aux [] cs)
      else py_split_aux (cur @ [c]) cs)"

definition py_split :: "string \<Rightarrow> string list" where
  "py_split s = py_split_aux [] s"

text \<open>\<^verbatim>\<open>s.strip()\<close>: without the leading and the trailing whitespace.\<close>

definition py_strip :: "string \<Rightarrow> string" where
  "py_strip s = rev (dropWhile is_space (rev (dropWhile is_space s)))"

text \<open>\<^verbatim>\<open>xs[i]\<close> raises IndexError out of range.\<close>

definition py_index :: "'a list \<Rightarrow> nat \<Rightarrow> 'a io" where
  "py_index xs i = (if i < length xs then io_return (xs ! i) else io_raise IndexError)"

text \<open>
  \<^verbatim>\<open>pipes.quote\<close>, which \<^verbatim>\<open>cmd\<close> applies to every argument before formatting
  (the tests carry a copy of \<^verbatim>\<open>cmd\<close>): a string of safe characters stays, the empty
  string becomes two quotes, anything else is put in single quotes with every single
  quote spelled \<^verbatim>\<open>'"'"'\<close>.
\<close>

definition safechars :: "char set" where
  "safechars = set (''abcdefghijklmnopqrstuvwxyzABCDEFGHIJKLMNOPQRSTUVWXYZ''
                     @ ''0123456789'' @ ''@%_-+=:,./'')"

definition quote :: "string \<Rightarrow> string" where
  "quote s =
     (if \<forall>c \<in> set s. c \<in> safechars then (if s = [] then [CHR 0x27, CHR 0x27] else s)
      else [CHR 0x27] @ concat (map (\<lambda>c. if c = CHR 0x27
                then [CHR 0x27, CHR 0x22, CHR 0x27, CHR 0x22, CHR 0x27] else [c]) s) @ [CHR 0x27])"

section \<open>The remote executor\<close>

text \<open>
  Fabric's \<^verbatim>\<open>cd\<close>: a relative path is appended to the current directory, an absolute
  one replaces it; the old directory is restored when the block is left, by return or
  by exception.
\<close>

definition cd_path :: "string \<Rightarrow> string \<Rightarrow> string" where
  "cd_path old path =
     (if old \<noteq> [] \<and> \<not> (path \<noteq> [] \<and> (hd path = CHR ''/'' \<or> hd path = CHR ''~''))
      then old @ ''/'' @ path else path)"

definition with_cd :: "string \<Rightarrow> 'a io \<Rightarrow> 'a io" where
  "with_cd path m w =
     (case m (w\<lparr>cwd := cd_path (cwd w) path\<rparr>) of
        (res, w') \<Rightarrow> (res, w'\<lparr>cwd := cwd w\<rparr>))"

text \<open>\<^verbatim>\<open>settings(host_string=h)\<close>: the host is restored when the block is left.\<close>

definition with_host :: "string \<Rightarrow> 'a io \<Rightarrow> 'a io" where
  "with_host h m w =
     (case m (w\<lparr>host_string := h\<rparr>) of
        (res, w') \<Rightarrow> (res, w'\<lparr>host_string := host_string w\<rparr>))"

text \<open>
  The four command lines of \<^verbatim>\<open>block_autostart\<close> and \<^verbatim>\<open>unblock_autostart\<close>, as the
  source writes them, have
  their shell meaning on the file \<^verbatim>\<open>usr/sbin/policy-rc.d\<close> under the working directory:
  \<^verbatim>\<open>echo ... >>\<close> appends a line (creating the file), \<^verbatim>\<open>chmod +x\<close> and \<^verbatim>\<open>rm\<close>
  fail on a missing file. Every command can fail for a reason of the remote's own
  (\<open>cmd_ok\<close>); a failed command of these four changes nothing.
\<close>

definition echo_shebang :: string where
  \<open>echo_shebang = ''echo "#!/bin/sh" >> usr/sbin/policy-rc.d''\<close>

definition echo_exit_101 :: string where
  \<open>echo_exit_101 = ''echo "exit 101"  >> usr/sbin/policy-rc.d''\<close>

definition chmod_policy :: string where
  "chmod_policy = ''chmod +x usr/sbin/policy-rc.d''"

definition rm_policy :: string where
  "rm_policy = ''rm usr/sbin/policy-rc.d''"

definition policy_rc_d :: "string \<Rightarrow> string \<Rightarrow> string \<times> string" where
  "policy_rc_d host dir = (host, dir @ ''/usr/sbin/policy-rc.d'')"

definition append_line :: "string \<times> string \<Rightarrow> string
    \<Rightarrow> (string \<times> string \<rightharpoonup> guest_file) \<Rightarrow> (string \<times> string \<rightharpoonup> guest_file)" where
  "append_line p l files =
     (case files p of
        None \<Rightarrow> files(p \<mapsto> \<lparr>content = [l], executable = False\<rparr>)
      | Some f \<Rightarrow> files(p \<mapsto> f\<lparr>content := content f @ [l]\<rparr>))"

definition sh :: "remote \<Rightarrow> nat \<Rightarrow> string \<Rightarrow> string \<Rightarrow> string
    \<Rightarrow> (string \<times> string \<rightharpoonup> guest_file) \<Rightarrow> bool \<times> (string \<times> string \<rightharpoonup> guest_file)" where
  \<open>sh r h host dir c files =
     (let p = policy_rc_d host dir; ok = cmd_ok r h host dir c in
      if c = echo_shebang then
        (if ok then (True, append_line p ''#!/bin/sh'' files) else (False, files))
      else if c = echo_exit_101 then
        (if ok then (True, append_line p ''exit 101'' files) else (False, files))
      else if c = chmod_policy then
        (case files p of
           None \<Rightarrow> (False, files)
         | Some f \<Rightarrow> if ok then (True, files(p \<mapsto> f\<lparr>executable := True\<rparr>)) else (False, files))
      else if c = rm_policy then
        (case files p of
           None \<Rightarrow> (False, files)
         | Some f \<Rightarrow> if ok then (True, files(p := None)) else (False, files))
      else (ok, cmd_fx r h host dir c files))\<close>

text \<open>
  \<^verbatim>\<open>run(command)\<close> and \<^verbatim>\<open>run(command, warn_only=True)\<close> on the current host in
  the current directory: the policy is per call, a failed command raises unless the
  call says warn-only.
\<close>

definition fabric_run :: "remote \<Rightarrow> string \<Rightarrow> bool \<Rightarrow> string io" where
  "fabric_run r c warn w =
     (case sh r (length (trace w)) (host_string w) (cwd w) c (fs w) of
        (ok, files) \<Rightarrow>
          (if ok \<or> warn
           then Inr (cmd_out r (length (trace w)) (host_string w) (cwd w) c)
           else Inl (RemoteCommandError (host_string w) c),
           w\<lparr>trace := trace w @ [Run (host_string w) (cwd w) c ok], fs := files\<rparr>))"

text \<open>\<^verbatim>\<open>get(path, fd)\<close> followed by \<^verbatim>\<open>fd.getvalue()\<close>.\<close>

definition fabric_get :: "remote \<Rightarrow> string \<Rightarrow> string io" where
  "fabric_get r path w =
     (case get_result r (length (trace w)) (host_string w) (cwd w) path of
        None \<Rightarrow> Inl (RemoteCommandError (host_string w) path)
      | Some v \<Rightarrow> Inr v,
      w\<lparr>trace := trace w @ [Get (host_string w) (cwd w) path]\<rparr>)"

definition fabric_put :: "remote \<Rightarrow> string \<Rightarrow> string \<Rightarrow> unit io" where
  "fabric_put r local path w =
     (if put_ok r (length (trace w)) (host_string w) (cwd w) path then Inr ()
      else Inl (RemoteCommandError (host_string w) path),
      w\<lparr>trace := trace w @ [Put (host_string w) (cwd w) local path]\<rparr>)"

definition upload_template :: "remote \<Rightarrow> string \<Rightarrow> string \<Rightarrow> (string \<times> tvalue) list \<Rightarrow> unit io" where
  "upload_template r template dest context w =
     (if upload_ok r (length (trace w)) (host_string w) (cwd w) dest then Inr ()
      else Inl (RemoteCommandError (host_string w) dest),
      w\<lparr>trace := trace w @ [UploadTemplate (host_string w) (cwd w) template dest context]\<rparr>)"

definition create_authorized_keys :: "remote \<Rightarrow> string \<Rightarrow> unit io" where
  "create_authorized_keys r target_dir w =
     (if authorized_keys_ok r (length (trace w)) (host_string w) target_dir then Inr ()
      else Inl (RemoteCommandError (host_string w) target_dir),
      w\<lparr>trace := trace w @ [CreateAuthorizedKeys (host_string w) target_dir]\<rparr>)"

text \<open>\<^verbatim>\<open>urllib2.urlopen(url, data)\<close>: a response, or the exception it raises.\<close>

definition urlopen :: "remote \<Rightarrow> string \<Rightarrow> (string \<times> string) list \<Rightarrow> (nat \<times> string) io" where
  "urlopen r url params w =
     (case urlopen_result r (length (trace w)) url params of
        Response code body \<Rightarrow> Inr (code, body)
      | RaisesSocketError m \<Rightarrow> Inl (SocketError m)
      | RaisesURLError m \<Rightarrow> Inl (URLError m)
      | RaisesOther m \<Rightarrow> Inl (OtherError m),
      w\<lparr>trace := trace w @ [UrlOpen url params]\<rparr>)"

section \<open>Hypervisor, VM and transaction\<close>

text \<open>
  The hypervisor model is not among the sources; what \<^verbatim>\<open>preparevm.py\<close> asks of it is
  taken as given: the host its \<^verbatim>\<open>run\<close> executes on, the mount path of a VM (none when
  the VM's storage is not mounted) and the block device name.
\<close>

record hypervisor =
  hv_hostname :: string
  vm_mount_path :: "string \<rightharpoonup> string"
  vm_block_device_name :: string

record vm =
  fqdn :: string
  hostname :: string
  network_config :: "(string \<times> string) list"

definition mount_path :: "hypervisor \<Rightarrow> vm \<Rightarrow> string io" where
  "mount_path hypervisor v =
     (case vm_mount_path hypervisor (fqdn v) of
        None \<Rightarrow> io_raise (IGVMError (fqdn v @ '' is not mounted''))
      | Some d \<Rightarrow> io_return d)"

definition hv_run :: "remote \<Rightarrow> hypervisor \<Rightarrow> string \<Rightarrow> string io" where
  "hv_run r hypervisor c = with_host (hv_hostname hypervisor) (fabric_run r c False)"

text \<open>\<^verbatim>\<open>vm.server_obj[key]\<close> and \<^verbatim>\<open>os.environ.get(key)\<close>.\<close>

definition server_obj_get :: "string \<Rightarrow> string io" where
  "server_obj_get k w = (case server_obj w k of None \<Rightarrow> (Inl (KeyError k), w) | Some v \<Rightarrow> (Inr v, w))"

definition server_obj_set :: "string \<Rightarrow> string \<Rightarrow> unit io" where
  "server_obj_set k v w = (Inr (), w\<lparr>server_obj := (server_obj w)(k \<mapsto> v)\<rparr>)"

definition environ_get :: "string \<Rightarrow> string option io" where
  "environ_get k w = (Inr (environ w k), w)"

text \<open>
  Modelled from the spec: the Transaction class, which is not among the sources.
  "\<^verbatim>\<open>register(description, action, args...)\<close> appends a compensation."
\<close>

definition on_rollback :: "nat \<Rightarrow> string \<Rightarrow> hypervisor \<Rightarrow> string \<Rightarrow> unit io" where
  "on_rollback tx d hypervisor c w =
     (let a = \<lparr>description = d, on_host = hv_hostname hypervisor, command = c\<rparr>
      in (Inr (), w\<lparr>trace := trace w @ [OnRollback tx a],
                      actions := (actions w)(tx := actions w tx @ [a])\<rparr>))"

section \<open>igvm/utils/preparevm.py\<close>



definition clear_cert_controller :: "remote \<Rightarrow> string \<Rightarrow> string \<Rightarrow> string \<Rightarrow> unit io" where
  "clear_cert_controller r hostname' puppet_master token =
     io_try
       (io_bind
          (urlopen r (''https://'' @ puppet_master @ '':9000/'')
             [(''token'', token), (''hostname'', hostname'), (''command'', ''clear'')])
          (\<lambda>response.
             if fst response \<noteq> 200 then io_raise (IGVMError (py_strip (snd response)))
             else io_return ()))
       is_network_error
       (\<lambda>e. io_raise (IGVMError (exn_message e)))"


definition agent_command :: "vm \<Rightarrow> string \<Rightarrow> string \<Rightarrow> string" where
  "agent_command v puppet_master puppet_ca =
     ''chroot . /usr/bin/puppet agent -v --fqdn='' @ fqdn v
       @ '' --server '' @ puppet_master @ '' --ca_server '' @ puppet_ca @ '' --no-report''
       @ '' --waitforcert=60 --onetime --no-daemonize''
       @ '' --tags=network,puppet --skip_tags=nrpe''"

definition cert_clean_command :: "vm \<Rightarrow> string" where
  \<open>cert_clean_command v =
     ''/usr/bin/puppet cert clean '' @ quote (fqdn v) @ '' || echo "No cert for Host found"''\<close>




text \<open>\<^verbatim>\<open>for x in xs: f(x)\<close>; the first exception ends the loop.\<close>

fun for_each :: "('a \<Rightarrow> unit io) \<Rightarrow> 'a list \<Rightarrow> unit io" where
  "for_each f [] = io_return ()"
| "for_each f (x # xs) = io_seq (f x) (for_each f xs)"

text \<open>\<^verbatim>\<open>str(n)\<close> of a natural number.\<close>

definition digit_char :: "nat \<Rightarrow> char" where
  "digit_char d = ''0123456789'' ! d"

function str_nat :: "nat \<Rightarrow> string" where
  "str_nat n = (if n < 10 then [digit_char n] else str_nat (n div 10) @ [digit_char (n mod 10)])"
  by pat_completeness auto
termination
  by (relation "measure id") auto

text \<open>\<^verbatim>\<open>os.path.join(a, b)\<close> for a relative \<open>b\<close>.\<close>

definition path_join :: "string \<Rightarrow> string \<Rightarrow> string" where
  "path_join a b = (if a = [] then b else if last a = CHR ''/'' then a @ b else a @ ''/'' @ b)"

definition key_types :: "string \<Rightarrow> string list" where
  "key_types os =
     (if os = ''wheezy'' then [''dsa'', ''rsa'', ''ecdsa'']
      else [''dsa'', ''rsa'', ''ecdsa'', ''ed25519''])"

definition keygen_command :: "string \<Rightarrow> string" where
  \<open>keygen_command key_type =
     ''chroot . ssh-keygen -q -t '' @ key_type @ '' -N "" -f etc/ssh/ssh_host_''
       @ key_type @ ''_key''\<close>

definition create_ssh_keys :: "remote \<Rightarrow> string \<Rightarrow> unit io" where
  "create_ssh_keys r os =
     io_seq (fabric_run r ''rm -f etc/ssh/ssh_host_*_key*'' False)
            (for_each (\<lambda>key_type. io_seq (fabric_run r (keygen_command key_type) False)
                                          (io_return ()))
               (key_types os))"

definition get_ssh_public_key :: "remote \<Rightarrow> string \<Rightarrow> string io" where
  "get_ssh_public_key r key_type =
     io_bind (fabric_get r (''etc/ssh/ssh_host_'' @ key_type @ ''_key.pub'')) (\<lambda>value.
     io_bind (py_index (py_split value) 0) (\<lambda>key0.
       if key0 \<noteq> ''ssh-'' @ key_type then io_raise AssertionError
       else py_index (py_split value) 1))"

definition generate_swap :: "remote \<Rightarrow> string \<Rightarrow> nat \<Rightarrow> unit io" where
  "generate_swap r swap_path size_MiB =
     io_seq (fabric_run r (''dd if=/dev/zero of='' @ quote swap_path @ '' bs=1M count=''
                             @ quote (str_nat size_MiB)) False)
    (io_seq (fabric_run r (''/sbin/mkswap '' @ quote swap_path) False)
    (io_seq (fabric_run r (''/bin/chmod 0600 '' @ quote swap_path) False)
            (io_return ())))"

definition create_interfaces :: "remote \<Rightarrow> (string \<times> string) list \<Rightarrow> unit io" where
  "create_interfaces r network_config' =
     io_seq (fabric_run r ''mkdir -p etc/network'' False)
            (upload_template r ''etc/network/interfaces'' ''etc/network/interfaces''
               [(''network_config'', TDict network_config')])"

definition settings_get :: "(igvm_settings \<Rightarrow> 'a) \<Rightarrow> 'a io" where
  "settings_get field w = (Inr (field (settings w)), w)"

text \<open>
  \<^verbatim>\<open>prepare_vm(hypervisor, vm)\<close>. \<^verbatim>\<open>hypervisor.fabric_settings(cd(target_dir))\<close> runs the
  block on the hypervisor's host in the mount directory.
\<close>

definition prepare_vm :: "remote \<Rightarrow> hypervisor \<Rightarrow> vm \<Rightarrow> unit io" where
  "prepare_vm r hypervisor v =
     io_bind (mount_path hypervisor v) (\<lambda>target_dir.
     with_host (hv_hostname hypervisor) (with_cd target_dir
      (io_seq (fabric_run r (''echo '' @ quote (fqdn v) @ '' > etc/hostname'') False)
      (io_seq (fabric_run r (''echo '' @ quote (fqdn v) @ '' > etc/mailname'') False)
      (io_seq (create_interfaces r (network_config v))
      (io_bind (server_obj_get ''os'') (\<lambda>os.
       io_seq (create_ssh_keys r os)
      (io_bind (get_ssh_public_key r ''rsa'') (\<lambda>key.
       io_seq (server_obj_set ''ssh_pubkey'' key)
      (io_seq (upload_template r ''etc/fstab'' ''etc/fstab''
                 [(''blk_dev'', TStr (vm_block_device_name hypervisor)),
                  (''type'', TStr ''xfs''), (''mount_options'', TStr ''defaults'')])
      (io_seq (upload_template r ''etc/hosts'' ''etc/hosts'' [])
      (io_seq (upload_template r ''etc/inittab'' ''etc/inittab'' [])
      (io_bind (settings_get DEFAULT_DNS_SERVERS) (\<lambda>dns_servers.
       io_seq (upload_template r ''etc/resolv.conf'' ''etc/resolv.conf''
                 [(''dns_servers'', TStrs dns_servers)])
      (io_bind (settings_get DEFAULT_SWAP_SIZE) (\<lambda>swap_size.
       io_seq (generate_swap r (path_join target_dir ''swap'') swap_size)
              (create_authorized_keys r target_dir)))))))))))))))))"

definition copy_postboot_script :: "remote \<Rightarrow> hypervisor \<Rightarrow> vm \<Rightarrow> string \<Rightarrow> unit io" where
  "copy_postboot_script r hypervisor v script =
     io_bind (mount_path hypervisor v) (\<lambda>target_dir.
     with_host (hv_hostname hypervisor) (with_cd target_dir
       (fabric_put r script ''buildvm-postboot'')))"

section \<open>Reading a trace\<close>

fun starts_with :: "string \<Rightarrow> string \<Rightarrow> bool" where
  "starts_with [] s = True"
| "starts_with (p # ps) [] = False"
| "starts_with (p # ps) (c # cs) = (p = c \<and> starts_with ps cs)"

text \<open>The events a call adds to the trace.\<close>

definition new_events :: "world \<Rightarrow> world \<Rightarrow> event list" where
  "new_events w w' = drop (length (trace w)) (trace w')"

text \<open>An execution of the Puppet agent in a chroot, successful or not.\<close>

fun is_agent_run :: "event \<Rightarrow> bool" where
  "is_agent_run (Run host dir c ok) = starts_with ''chroot . /usr/bin/puppet agent'' c"
| "is_agent_run e = False"


text \<open>The three successful commands of \<^verbatim>\<open>block_autostart\<close> in the directory \<open>dir\<close>.\<close>

definition block_events :: "string \<Rightarrow> string \<Rightarrow> event list" where
  "block_events host dir =
     [Run host dir echo_shebang True, Run host dir echo_exit_101 True,
      Run host dir chmod_policy True]"


section \<open>managevm/utils/image_packet.py\<close>

definition BASE_URL :: string where
  "BASE_URL = ''http://files.innogames.de/''"

definition PACKET_SERVER :: string where
  "PACKET_SERVER = ''packet.ig.local''"

definition PACKET_DIR :: string where
  "PACKET_DIR = ''/www/files.innogames.de/htdocs''"

text \<open>
  The regular expression \<^verbatim>\<open><a\s+href="(.+?\.tar\.gz)"\<close> of \<^verbatim>\<open>get_images\<close>.
  \<open>lazy_target\<close> is the group followed by the closing quote: the shortest non-empty
  run of characters other than newline after which \<^verbatim>\<open>.tar.gz"\<close> follows; it gives the
  captured text and what it consumed. \<open>match_at\<close> matches the whole expression at the
  start of a text (the greedy \<^verbatim>\<open>\s+\<close> takes all the whitespace: what follows it is
  a letter).
\<close>

fun lazy_target :: "string \<Rightarrow> string \<Rightarrow> (string \<times> nat) option" where
  "lazy_target acc [] = None"
| \<open>lazy_target acc (c # cs) =
     (if c = CHR 0x0A then None
      else if starts_with ''.tar.gz"'' cs
           then Some (acc @ [c] @ ''.tar.gz'', length acc + 1 + 8)
           else lazy_target (acc @ [c]) cs)\<close>

definition match_at :: "string \<Rightarrow> (string \<times> nat) option" where
  \<open>match_at s =
     (if starts_with ''<a'' s then
        (let after_a = drop 2 s; after_ws = dropWhile is_space after_a in
         if after_ws = after_a then None
         else if starts_with ''href="'' after_ws then
           (case lazy_target [] (drop 6 after_ws) of
              None \<Rightarrow> None
            | Some (g, n) \<Rightarrow> Some (g, 2 + (length after_a - length after_ws) + 6 + n))
         else None)
      else None)\<close>

text \<open>
  \<^verbatim>\<open>re.findall\<close>: the matches from left to right, none overlapping; \<open>skip\<close> is the
  number of characters still inside the last match.
\<close>

fun findall_from :: "nat \<Rightarrow> string \<Rightarrow> string list" where
  "findall_from skip [] = []"
| "findall_from (Suc k) (c # cs) = findall_from k cs"
| "findall_from 0 (c # cs) =
     (case match_at (c # cs) of
        None \<Rightarrow> findall_from 0 cs
      | Some (g, n) \<Rightarrow> g # findall_from (n - 1) cs)"

definition findall_tar_gz :: "string \<Rightarrow> string list" where
  "findall_tar_gz page = findall_from 0 page"

text \<open>\<^verbatim>\<open>urllib2.urlopen(url, timeout=2).read()\<close>.\<close>

definition urlopen_read :: "remote \<Rightarrow> string \<Rightarrow> string io" where
  "urlopen_read r url = io_bind (urlopen r url []) (\<lambda>response. io_return (snd response))"

text \<open>\<^verbatim>\<open>get_images()\<close>; the result \<open>None\<close> is Python's \<^verbatim>\<open>None\<close>.\<close>

definition get_images :: "remote \<Rightarrow> string list option io" where
  "get_images r =
     io_bind
       (io_try (io_bind (urlopen_read r BASE_URL) (\<lambda>image_html. io_return (Some image_html)))
          is_URLError (\<lambda>e. io_return None))
       (\<lambda>image_html. case image_html of
            None \<Rightarrow> io_return None
          | Some page \<Rightarrow> io_return (Some (findall_tar_gz page)))"

text \<open>\<^verbatim>\<open>files.exists(path)\<close> on the current host.\<close>

definition files_exists :: "remote \<Rightarrow> string \<Rightarrow> bool io" where
  "files_exists r path w =
     (Inr (exists_result r (length (trace w)) (host_string w) (cwd w) path),
      w\<lparr>trace := trace w @ [FilesExists (host_string w) (cwd w) path]\<rparr>)"

text \<open>
  \<^verbatim>\<open>run(cmd('md5sum {0}', image)).split()[0]\<close>, where \<^verbatim>\<open>run = fail_gracefully(run)\<close>
  raises when the command fails.
\<close>

definition md5sum_first :: "remote \<Rightarrow> string \<Rightarrow> string io" where
  "md5sum_first r image_name =
     io_bind (fabric_run r (''md5sum '' @ quote image_name) False) (\<lambda>out. py_index (py_split out) 0)"

definition download_image :: "remote \<Rightarrow> string \<Rightarrow> unit io" where
  "download_image r image_name =
     (let url = BASE_URL @ image_name in
      io_bind (files_exists r image_name) (\<lambda>present.
        if present then
          io_bind (md5sum_first r image_name) (\<lambda>local_hash.
            io_try
              (io_bind (with_host PACKET_SERVER (with_cd PACKET_DIR (md5sum_first r image_name)))
                 (\<lambda>remote_hash.
                    if local_hash \<noteq> remote_hash then
                      io_seq (fabric_run r (''rm -f '' @ quote image_name) False)
                     (io_seq (fabric_run r (''wget -nv '' @ quote url) False)
                             (io_return ()))
                    else io_return ()))
              (\<lambda>e. True)
              (\<lambda>e. io_return ()))
        else io_seq (fabric_run r (''wget -nv '' @ quote url) False) (io_return ())))"

definition extract_image :: "remote \<Rightarrow> string \<Rightarrow> string \<Rightarrow> unit io" where
  "extract_image r image_name target_dir =
     io_seq (fabric_run r (''tar xfz '' @ quote image_name @ '' -C '' @ quote target_dir) False)
            (io_return ())"

section \<open>Describing the events of \<^verbatim>\<open>run_puppet\<close>\<close>

text \<open>No event of the list is an agent run.\<close>

definition no_agent :: "event list \<Rightarrow> bool" where
  "no_agent evs = (\<forall>e \<in> set evs. \<not> is_agent_run e)"







section \<open>Reasoning about a call\<close>



section \<open>Concrete inputs\<close>

text \<open>
  A remote whose commands succeed exactly when \<open>ok\<close> accepts the command line, whose
  controller answers \<open>u\<close>, and whose other operations succeed.
\<close>

definition remote_of :: "(string \<Rightarrow> bool) \<Rightarrow> url_result \<Rightarrow> remote" where
  "remote_of ok u =
     \<lparr>cmd_ok = (\<lambda>h host dir c. ok c),
      cmd_out = (\<lambda>h host dir c. ''d41d8cd98f00b204  jessie.tar.gz''),
      cmd_fx = (\<lambda>h host dir c files. files),
      get_result = (\<lambda>h host dir path. Some ''ssh-rsa AAAAB3Nza root@vm''),
      put_ok = (\<lambda>h host dir path. True),
      upload_ok = (\<lambda>h host dir path. True),
      authorized_keys_ok = (\<lambda>h host dir. True),
      exists_result = (\<lambda>h host dir path. True),
      urlopen_result = (\<lambda>h url params. u)\<rparr>"

definition world0 :: world where
  "world0 =
     \<lparr>host_string = ''localhost'', cwd = [], environ = Map.empty,
      settings = \<lparr>DEFAULT_DNS_SERVERS = [''10.0.0.102'', ''10.0.0.85''], DEFAULT_SWAP_SIZE = 1024\<rparr>,
      trace = [],
      actions = (\<lambda>t. []),
      server_obj = [''os'' \<mapsto> ''jessie'', ''puppet_ca'' \<mapsto> ''ca.ig.local'',
                    ''puppet_master'' \<mapsto> ''puppet.ig.local''],
      fs = Map.empty\<rparr>"




definition always_ok :: "string \<Rightarrow> bool" where
  "always_ok c = True"


section \<open>Lemmas on the steps of \<^verbatim>\<open>run_puppet\<close>\<close>


lemma agent_run_simps:
  "\<not> starts_with ''chroot . /usr/bin/puppet agent'' echo_shebang"
  "\<not> starts_with ''chroot . /usr/bin/puppet agent'' echo_exit_101"
  "\<not> starts_with ''chroot . /usr/bin/puppet agent'' chmod_policy"
  "\<not> starts_with ''chroot . /usr/bin/puppet agent'' rm_policy"
  "\<not> starts_with ''chroot . /usr/bin/puppet agent'' (cert_clean_command v)"
  "starts_with ''chroot . /usr/bin/puppet agent'' (agent_command v pm ca)"
  by (simp_all add: echo_shebang_def echo_exit_101_def chmod_policy_def rm_policy_def
        agent_command_def cert_clean_command_def)


lemma hv_run_eq:
  "hv_run r hv c w =
     (if fst (sh r (length (trace w)) (hv_hostname hv) (cwd w) c (fs w))
      then Inr (cmd_out r (length (trace w)) (hv_hostname hv) (cwd w) c)
      else Inl (RemoteCommandError (hv_hostname hv) c),
      w\<lparr>trace := trace w @ [Run (hv_hostname hv) (cwd w) c
                                (fst (sh r (length (trace w)) (hv_hostname hv) (cwd w) c (fs w)))],
        fs := snd (sh r (length (trace w)) (hv_hostname hv) (cwd w) c (fs w))\<rparr>)"
  by (simp add: hv_run_def with_host_def fabric_run_def split: prod.splits)




















lemmas io_defs = io_bind_def io_seq_def io_raise_def io_return_def io_try_def with_cd_def
  with_host_def mount_path_def server_obj_get_def environ_get_def on_rollback_def
  log_info_def emit_def


lemma new_events_upd [simp]:
  "new_events w (w\<lparr>trace := trace w @ evs\<rparr>) = evs"
  "new_events w (w\<lparr>trace := trace w @ evs, fs := f\<rparr>) = evs"
  by (simp_all add: new_events_def)









lemma no_agent_block [simp]: "no_agent (block_events h d)"
  by (simp add: no_agent_def block_events_def agent_run_simps)

lemma no_agent_append [simp]: "no_agent (xs @ ys) = (no_agent xs \<and> no_agent ys)"
  by (auto simp: no_agent_def)






section \<open>Properties of the certificate controller call\<close>

text \<open>
  C6. \<^verbatim>\<open>_clear_cert_controller\<close> makes one request, to \<^verbatim>\<open>https://<puppet_master>:9000/\<close>,
  with exactly the parameters token, hostname and command=clear. It returns normally
  if and only if the response has status 200; a response with another status raises
  IGVMError (with the stripped body as message), and a socket error or URL error raises
  IGVMError as well.
\<close>

theorem clear_cert_controller_status:
  "trace (snd (clear_cert_controller r h pm token w)) =
     trace w @ [UrlOpen (''https://'' @ pm @ '':9000/'')
                  [(''token'', token), (''hostname'', h), (''command'', ''clear'')]]
   \<and> (fst (clear_cert_controller r h pm token w) = Inr () \<longleftrightarrow>
        (\<exists>body. urlopen_result r (length (trace w)) (''https://'' @ pm @ '':9000/'')
                  [(''token'', token), (''hostname'', h), (''command'', ''clear'')]
               = Response 200 body))
   \<and> (\<forall>code body. urlopen_result r (length (trace w)) (''https://'' @ pm @ '':9000/'')
                  [(''token'', token), (''hostname'', h), (''command'', ''clear'')]
               = Response code body \<and> code \<noteq> 200 \<longrightarrow>
          fst (clear_cert_controller r h pm token w) = Inl (IGVMError (py_strip body)))
   \<and> (\<forall>m. urlopen_result r (length (trace w)) (''https://'' @ pm @ '':9000/'')
                  [(''token'', token), (''hostname'', h), (''command'', ''clear'')]
               \<in> {RaisesSocketError m, RaisesURLError m} \<longrightarrow>
          fst (clear_cert_controller r h pm token w) = Inl (IGVMError m))"
  by (cases "urlopen_result r (length (trace w)) (''https://'' @ pm @ '':9000/'')
                  [(''token'', token), (''hostname'', h), (''command'', ''clear'')]")
     (auto simp add: clear_cert_controller_def io_try_def io_bind_def urlopen_def
        io_raise_def io_return_def)

theorem clear_cert_controller_status_witness:
  "fst (clear_cert_controller (remote_of always_ok (Response 200 ''ok''))
          ''vm1'' ''ca.ig.local'' ''secret'' world0) = Inr ()
   \<and> fst (clear_cert_controller (remote_of always_ok (Response 403 '' denied ''))
          ''vm1'' ''ca.ig.local'' ''secret'' world0) = Inl (IGVMError ''denied'')
   \<and> fst (clear_cert_controller (remote_of always_ok (RaisesURLError ''timed out''))
          ''vm1'' ''ca.ig.local'' ''secret'' world0) = Inl (IGVMError ''timed out'')"
  using clear_cert_controller_status
          [of "remote_of always_ok (Response 200 ''ok'')" "''vm1''" "''ca.ig.local''"
              "''secret''" world0]
        clear_cert_controller_status
          [of "remote_of always_ok (Response 403 '' denied '')" "''vm1''" "''ca.ig.local''"
              "''secret''" world0]
        clear_cert_controller_status
          [of "remote_of always_ok (RaisesURLError ''timed out'')" "''vm1''"
              "''ca.ig.local''" "''secret''" world0]
  by (simp add: remote_of_def py_strip_def is_space_def)

section \<open>Properties of \<^verbatim>\<open>run_puppet\<close>\<close>










end
